theory Spec2Isabelle
  imports Complex_Main "HOL-Library.Monad_Syntax"
begin

section \<open>Data model\<close>

text \<open>
  The tables of \<^verbatim>\<open>main.py\<close>. A column declared \<^verbatim>\<open>Column(Text)\<close> or
  \<^verbatim>\<open>Column(Float)\<close> without \<^verbatim>\<open>primary_key=True\<close> may hold NULL, so it is an
  option; a primary-key column is never NULL. The type \<open>'f\<close> stands for Python's
  \<^verbatim>\<open>float\<close> and \<open>'t\<close> for \<^verbatim>\<open>datetime\<close>: the queries only move such values around.
  The field \<^verbatim>\<open>id\<close> is called \<open>id_col\<close> and \<^verbatim>\<open>value\<close> is called \<open>value_col\<close>,
  since both names are taken in HOL.
\<close>

record ('f, 't) CaseReport =
  id_col :: int
  caseType :: "string option"
  numberOfCases :: "'f option"
  latitude :: "'f option"
  longitude :: "'f option"
  weekNumber :: "int option"
  fromDateTime :: "'t option"
  toDateTime :: "'t option"
  reportingDate :: "'t option"
  reportingEntityType :: "string option"
  reportingEntityIdentifier :: "'f option"
  sexGroupMaleCases :: "'f option"
  sexGroupFemaleCases :: "'f option"
  sexGroupUnknownCases :: "'f option"
  ageGroup0To4Cases :: "'f option"
  ageGroup5To18Cases :: "'f option"
  ageGroup19To59Cases :: "'f option"
  ageGroup60PlusCases :: "'f option"
  ageGroupUnknownCases :: "'f option"
  administrativeLevel :: "int option"

text \<open>
  The three weather tables (\<^verbatim>\<open>RainfallDailyWeightedAverage\<close>,
  \<^verbatim>\<open>RelativeHumidityDailyAverage\<close>, \<^verbatim>\<open>TemperatureDailyMax\<close>) declare the same five
  columns, so one record serves the three.
\<close>

record 'f DailyMetric =
  forecast_date :: string
  day_name :: "string option"
  value_col :: "'f option"
  municipality_code :: string
  municipality_name :: "string option"

type_synonym 'f RainfallDailyWeightedAverage = "'f DailyMetric"
type_synonym 'f RelativeHumidityDailyAverage = "'f DailyMetric"
type_synonym 'f TemperatureDailyMax = "'f DailyMetric"

text \<open>
  The response model \<^verbatim>\<open>WeatherData\<close>: three required \<^verbatim>\<open>str\<close> fields and four
  \<^verbatim>\<open>float | None\<close> fields. The first three fields carry the prefix \<open>wd_\<close> to keep them
  apart from the columns of the same names.
\<close>

record 'f WeatherData =
  wd_forecast_date :: string
  wd_day_name :: string
  wd_municipality_name :: string
  relative_humidity :: "'f option"
  temperature_max :: "'f option"
  rainfall :: "'f option"
  heat_index :: "'f option"

text \<open>
  The store: each table is the list of its rows in the order in which the storage engine
  returns them when a query has no ORDER BY. The fields carry the tables' names.
\<close>

record ('f, 't) store =
  case_reports :: "('f, 't) CaseReport list"
  rainfall_daily_weighted_average :: "'f RainfallDailyWeightedAverage list"
  rh_daily_avg_region :: "'f RelativeHumidityDailyAverage list"
  tmax_daily_tmax_region :: "'f TemperatureDailyMax list"

text \<open>
  What an operation can end with instead of its rows: \<^verbatim>\<open>HTTPException(status_code, detail)\<close>
  raised by the body; the rejection of a query parameter outside the bounds that
  \<^verbatim>\<open>Query(..., ge=1, le=100)\<close> declares; the store's error for an \<^verbatim>\<open>OFFSET\<close> that does not
  fit its 64-bit integers; the rejection of a returned record by the endpoint's
  \<^verbatim>\<open>response_model\<close>; and the \<^verbatim>\<open>ValidationError\<close> that constructing a \<^verbatim>\<open>WeatherData\<close>
  raises when a required \<^verbatim>\<open>str\<close> field is given \<^verbatim>\<open>None\<close>.
\<close>

datatype error =
    HTTPException nat string
  | RequestValidationError
  | DataError
  | ResponseValidationError
  | ValidationError

section \<open>Heat index\<close>

text \<open>
  Python's float arithmetic is a parameter of the model. The operations that can raise
  return an option: \<open>fdiv\<close> is \<^verbatim>\<open>/\<close> (\<^verbatim>\<open>ZeroDivisionError\<close> on a zero divisor) and
  \<open>fexp\<close> is \<^verbatim>\<open>math.exp\<close> (\<^verbatim>\<open>OverflowError\<close>); \<open>flit\<close> is the float that a numeric
  literal of the source denotes.
\<close>

record 'f float_arith =
  flit :: "rat \<Rightarrow> 'f"
  fadd :: "'f \<Rightarrow> 'f \<Rightarrow> 'f"
  fsub :: "'f \<Rightarrow> 'f \<Rightarrow> 'f"
  fmul :: "'f \<Rightarrow> 'f \<Rightarrow> 'f"
  fdiv :: "'f \<Rightarrow> 'f \<Rightarrow> 'f option"
  fexp :: "'f \<Rightarrow> 'f option"

text \<open>
  \<^verbatim>\<open>compute_heat_index\<close>: the guard on \<^verbatim>\<open>None\<close>, then the expression in Python's order
  of evaluation; the \<^verbatim>\<open>except Exception\<close> branch turns every raise into \<^verbatim>\<open>None\<close>.
\<close>

definition compute_heat_index ::
  "'f float_arith \<Rightarrow> 'f option \<Rightarrow> 'f option \<Rightarrow> 'f option" where
  "compute_heat_index A temperature humidity =
    (if temperature = None \<or> humidity = None then None
     else
       let T = the temperature in
       do {
         a \<leftarrow> fdiv A (flit A 1) (flit A 273.15);
         b \<leftarrow> fdiv A (flit A 1) (fadd A (flit A 273.15) T);
         e \<leftarrow> fexp A (fmul A (flit A 5417.7530) (fsub A a b));
         Some (fadd A T (fmul A (flit A 0.5555) (fsub A (fmul A (flit A 6.11) e) (flit A 10))))
       })"

text \<open>
  An instance of the arithmetic for evaluating the model at concrete stores: exact real
  arithmetic, in which only a division by zero raises.
\<close>

definition real_arith :: "real float_arith" where
  "real_arith =
    \<lparr>flit = of_rat, fadd = (+), fsub = (-), fmul = (*),
     fdiv = (\<lambda>x y. if y = 0 then None else Some (x / y)),
     fexp = (\<lambda>x. Some (exp x))\<rparr>"

section \<open>Case report queries\<close>

text \<open>
  The tests \<^verbatim>\<open>if caseType:\<close> and \<^verbatim>\<open>if weekNumber:\<close> are Python truth tests: \<^verbatim>\<open>None\<close>,
  the empty string and the integer zero are false.
\<close>

definition truthy_str :: "string option \<Rightarrow> bool" where
  "truthy_str q = (case q of None \<Rightarrow> False | Some s \<Rightarrow> s \<noteq> [])"

definition truthy_int :: "int option \<Rightarrow> bool" where
  "truthy_int q = (case q of None \<Rightarrow> False | Some n \<Rightarrow> n \<noteq> 0)"

text \<open>
  Lines 146 to 154 of \<^verbatim>\<open>get_case_reports\<close>: the query on the table and its three
  optional filters. A comparison \<^verbatim>\<open>column == x\<close> is SQL equality, which a NULL column
  never satisfies.
\<close>

definition filtered_case_reports ::
  "('f, 't) store \<Rightarrow> string option \<Rightarrow> string option \<Rightarrow> int option \<Rightarrow> ('f, 't) CaseReport list" where
  "filtered_case_reports db caseType_q reportingEntityType_q weekNumber_q =
    (let query = case_reports db;
         query = (if truthy_str caseType_q
                  then filter (\<lambda>r. caseType r = caseType_q) query else query);
         query = (if truthy_str reportingEntityType_q
                  then filter (\<lambda>r. reportingEntityType r = reportingEntityType_q) query
                  else query);
         query = (if truthy_int weekNumber_q
                  then filter (\<lambda>r. weekNumber r = weekNumber_q) query else query)
     in query)"

text \<open>
  The response model \<^verbatim>\<open>CaseReportModel\<close> declares \<^verbatim>\<open>id: int\<close> and \<^verbatim>\<open>caseType: str\<close>
  and every other field \<^verbatim>\<open>Optional\<close>. The column \<^verbatim>\<open>id\<close> is the primary key and never
  NULL, so a record passes the model exactly when its \<^verbatim>\<open>caseType\<close> is not NULL.
\<close>

definition passes_CaseReportModel :: "('f, 't) CaseReport \<Rightarrow> bool" where
  "passes_CaseReportModel r = (caseType r \<noteq> None)"

text \<open>The largest \<^verbatim>\<open>OFFSET\<close> the store accepts, \<^verbatim>\<open>2**63 - 1\<close>.\<close>

definition max_offset :: int where
  "max_offset = 9223372036854775807"

text \<open>
  \<^verbatim>\<open>get_case_reports\<close>, as the endpoint that its decorator and signature declare. The
  bounds of \<^verbatim>\<open>page\<close> and \<^verbatim>\<open>page_size\<close> are those of the signature; \<^verbatim>\<open>offset\<close> and
  \<^verbatim>\<open>limit\<close> are \<open>drop\<close> and \<open>take\<close> on the rows in the store's order, and the store
  refuses an offset above \<open>max_offset\<close>; the records that the body returns are validated
  against \<^verbatim>\<open>response_model=List[CaseReportModel]\<close>. The encoding of the validated records
  as JSON comes after and is not part of the model. The operation returns the store beside
  its outcome: it only reads.
\<close>

definition get_case_reports ::
  "('f, 't) store \<Rightarrow> string option \<Rightarrow> string option \<Rightarrow> int option \<Rightarrow> int \<Rightarrow> int \<Rightarrow>
   (error + ('f, 't) CaseReport list) \<times> ('f, 't) store" where
  "get_case_reports db caseType_q reportingEntityType_q weekNumber_q page page_size =
    (if page < 1 \<or> page_size < 1 \<or> 100 < page_size then (Inl RequestValidationError, db)
     else
       let query = filtered_case_reports db caseType_q reportingEntityType_q weekNumber_q;
           total_records = length query;
           offset = (page - 1) * page_size
       in if max_offset < offset then (Inl DataError, db)
          else
            let query = take (nat page_size) (drop (nat offset) query)
            in if query = [] then (Inl (HTTPException 404 ''No case reports found''), db)
               else if list_all passes_CaseReportModel query then (Inr query, db)
               else (Inl ResponseValidationError, db))"

text \<open>
  \<^verbatim>\<open>get_case_report\<close>: \<^verbatim>\<open>.first()\<close> is the first row that passes the filter, or
  \<^verbatim>\<open>None\<close>; the record that the body returns is validated against
  \<^verbatim>\<open>response_model=CaseReportModel\<close>.
\<close>

definition get_case_report ::
  "('f, 't) store \<Rightarrow> int \<Rightarrow> (error + ('f, 't) CaseReport) \<times> ('f, 't) store" where
  "get_case_report db report_id =
    (case find (\<lambda>r. id_col r = report_id) (case_reports db) of
       None \<Rightarrow> (Inl (HTTPException 404 ''Case report not found''), db)
     | Some report \<Rightarrow>
         if passes_CaseReportModel report then (Inr report, db)
         else (Inl ResponseValidationError, db))"

section \<open>Weather query\<close>

text \<open>
  The condition of both joins: equality of \<^verbatim>\<open>forecast_date\<close>, \<^verbatim>\<open>day_name\<close> and
  \<^verbatim>\<open>municipality_code\<close>. A NULL \<^verbatim>\<open>day_name\<close> equals nothing in SQL.
\<close>

definition join_on :: "'f DailyMetric \<Rightarrow> 'f DailyMetric \<Rightarrow> bool" where
  "join_on h m =
    (forecast_date h = forecast_date m \<and>
     day_name h \<noteq> None \<and> day_name h = day_name m \<and>
     municipality_code h = municipality_code m)"

text \<open>
  \<^verbatim>\<open>.join(..., isouter=True)\<close>: every left row is paired with each right row that meets
  the condition, and with no right row when none does.
\<close>

definition outer_join :: "('a \<Rightarrow> 'b \<Rightarrow> bool) \<Rightarrow> 'a list \<Rightarrow> 'b list \<Rightarrow> ('a \<times> 'b option) list" where
  "outer_join on xs ys =
    concat (map (\<lambda>x. let ms = filter (on x) ys
                      in if ms = [] then [(x, None)] else map (\<lambda>y. (x, Some y)) ms) xs)"

text \<open>
  A row of the joined query: the humidity row, the temperature row and the rainfall row,
  the last two absent when the join found none. The labelled columns of the source's
  query are read through it.
\<close>

type_synonym 'f joined = "('f DailyMetric \<times> 'f DailyMetric option) \<times> 'f DailyMetric option"

definition anchor :: "'f joined \<Rightarrow> 'f DailyMetric" where
  "anchor row = fst (fst row)"

definition col_relative_humidity :: "'f joined \<Rightarrow> 'f option" where
  "col_relative_humidity row = value_col (anchor row)"

definition col_temperature_max :: "'f joined \<Rightarrow> 'f option" where
  "col_temperature_max row = Option.bind (snd (fst row)) value_col"

definition col_rainfall :: "'f joined \<Rightarrow> 'f option" where
  "col_rainfall row = Option.bind (snd row) value_col"

text \<open>Lines 203 to 235 of \<^verbatim>\<open>fetch_weather_data\<close>: the two joins, the filters, \<^verbatim>\<open>.all()\<close>.\<close>

definition weather_results ::
  "('f, 't) store \<Rightarrow> string option \<Rightarrow> string option \<Rightarrow> string option \<Rightarrow> 'f joined list" where
  "weather_results db forecast_date_q municipality_code_q municipality_name_q =
    (let query = outer_join (\<lambda>row. join_on (fst row))
                   (outer_join join_on (rh_daily_avg_region db) (tmax_daily_tmax_region db))
                   (rainfall_daily_weighted_average db);
         query = (if truthy_str forecast_date_q
                  then filter (\<lambda>row. Some (forecast_date (anchor row)) = forecast_date_q) query
                  else query);
         query = (if truthy_str municipality_code_q
                  then filter (\<lambda>row. Some (municipality_code (anchor row)) = municipality_code_q) query
                  else query);
         query = (if truthy_str municipality_name_q
                  then filter (\<lambda>row. municipality_name (anchor row) = municipality_name_q) query
                  else query)
     in query)"

text \<open>
  The body of the loop: the heat index of the row, then the \<^verbatim>\<open>WeatherData\<close> built from
  its columns. The constructor rejects \<^verbatim>\<open>None\<close> in a \<^verbatim>\<open>str\<close> field; \<^verbatim>\<open>forecast_date\<close>
  is a primary-key column and never \<^verbatim>\<open>None\<close>. The \<^verbatim>\<open>print\<close> of the heat index writes to
  standard output, which is neither the store nor the response, and is left out.
\<close>

definition make_WeatherData :: "'f float_arith \<Rightarrow> 'f joined \<Rightarrow> error + 'f WeatherData" where
  "make_WeatherData A row =
    (let heat_index_v = compute_heat_index A (col_temperature_max row) (col_relative_humidity row)
     in case day_name (anchor row) of
          None \<Rightarrow> Inl ValidationError
        | Some d \<Rightarrow>
            (case municipality_name (anchor row) of
               None \<Rightarrow> Inl ValidationError
             | Some n \<Rightarrow>
                 Inr \<lparr>wd_forecast_date = forecast_date (anchor row),
                      wd_day_name = d,
                      wd_municipality_name = n,
                      relative_humidity = col_relative_humidity row,
                      temperature_max = col_temperature_max row,
                      rainfall = col_rainfall row,
                      heat_index = heat_index_v\<rparr>))"

text \<open>
  The loop over \<^verbatim>\<open>results\<close>, appending to \<^verbatim>\<open>weather_data\<close>; an exception leaves it.
\<close>

fun weather_loop ::
  "'f float_arith \<Rightarrow> 'f joined list \<Rightarrow> 'f WeatherData list \<Rightarrow> error + 'f WeatherData list" where
  "weather_loop A [] weather_data = Inr weather_data"
| "weather_loop A (row # results) weather_data =
     (case make_WeatherData A row of
        Inl e \<Rightarrow> Inl e
      | Inr w \<Rightarrow> weather_loop A results (weather_data @ [w]))"

definition fetch_weather_data ::
  "'f float_arith \<Rightarrow> ('f, 't) store \<Rightarrow> string option \<Rightarrow> string option \<Rightarrow> string option \<Rightarrow>
   (error + 'f WeatherData list) \<times> ('f, 't) store" where
  "fetch_weather_data A db forecast_date_q municipality_code_q municipality_name_q =
    (let results = weather_results db forecast_date_q municipality_code_q municipality_name_q
     in if results = [] then (Inl (HTTPException 404 ''No data found for the given filters''), db)
        else (weather_loop A results [], db))"

section \<open>Notions used in the statements\<close>

text \<open>
  The rows that the three filters of \<^verbatim>\<open>get_case_reports\<close> keep: a filter that is
  \<^verbatim>\<open>None\<close>, empty or zero keeps every row.
\<close>

definition selects ::
  "string option \<Rightarrow> string option \<Rightarrow> int option \<Rightarrow> ('f, 't) CaseReport \<Rightarrow> bool" where
  "selects c e w r =
    ((if truthy_str c then caseType r = c else True) \<and>
     (if truthy_str e then reportingEntityType r = e else True) \<and>
     (if truthy_int w then weekNumber r = w else True))"

text \<open>
  The rows that a request for one page contributes: the rows it returns, and none when it
  ends with an error.
\<close>

definition page_of ::
  "('f, 't) store \<Rightarrow> string option \<Rightarrow> string option \<Rightarrow> int option \<Rightarrow> int \<Rightarrow> int \<Rightarrow>
   ('f, 't) CaseReport list" where
  "page_of db c e w page page_size =
    (case fst (get_case_reports db c e w page page_size) of Inl err \<Rightarrow> [] | Inr rows \<Rightarrow> rows)"


definition anchor_selected ::
  "string option \<Rightarrow> string option \<Rightarrow> string option \<Rightarrow> 'f DailyMetric \<Rightarrow> bool" where
  "anchor_selected fd mc mn h =
    ((if truthy_str fd then Some (forecast_date h) = fd else True) \<and>
     (if truthy_str mc then Some (municipality_code h) = mc else True) \<and>
     (if truthy_str mn then municipality_name h = mn else True))"


section \<open>Concrete stores\<close>

definition example_report :: "int \<Rightarrow> string \<Rightarrow> string \<Rightarrow> int \<Rightarrow> (real, int) CaseReport" where
  "example_report i c e w =
    \<lparr>id_col = i, caseType = Some c, numberOfCases = Some 4, latitude = None, longitude = None,
     weekNumber = Some w, fromDateTime = None, toDateTime = None, reportingDate = None,
     reportingEntityType = Some e, reportingEntityIdentifier = None,
     sexGroupMaleCases = None, sexGroupFemaleCases = None, sexGroupUnknownCases = None,
     ageGroup0To4Cases = None, ageGroup5To18Cases = None, ageGroup19To59Cases = None,
     ageGroup60PlusCases = None, ageGroupUnknownCases = None, administrativeLevel = Some 1\<rparr>"

definition example_metric ::
  "string \<Rightarrow> string option \<Rightarrow> real option \<Rightarrow> string \<Rightarrow> real DailyMetric" where
  "example_metric d n v c =
    \<lparr>forecast_date = d, day_name = n, value_col = v, municipality_code = c,
     municipality_name = Some ''Dili''\<rparr>"

text \<open>
  Three case reports; two humidity rows, of which only the first has a temperature row,
  and no rainfall row.
\<close>

definition example_db :: "(real, int) store" where
  "example_db =
    \<lparr>case_reports =
       [example_report 1 ''dengue'' ''hospital'' 5,
        example_report 2 ''dengue'' ''clinic'' 5,
        example_report 3 ''malaria'' ''hospital'' 6],
     rainfall_daily_weighted_average = [],
     rh_daily_avg_region =
       [example_metric ''2024-01-01'' (Some ''Mon'') (Some 80) ''M1'',
        example_metric ''2024-01-01'' (Some ''Mon'') (Some 70) ''M2''],
     tmax_daily_tmax_region =
       [example_metric ''2024-01-01'' (Some ''Mon'') (Some 30) ''M1'']\<rparr>"

text \<open>One humidity row whose \<^verbatim>\<open>day_name\<close> is NULL.\<close>

definition unlabelled_db :: "(real, int) store" where
  "unlabelled_db =
    \<lparr>case_reports = [],
     rainfall_daily_weighted_average = [],
     rh_daily_avg_region = [example_metric ''2024-01-01'' None (Some 80) ''M1''],
     tmax_daily_tmax_region = []\<rparr>"

text \<open>One case report whose \<^verbatim>\<open>caseType\<close> is NULL.\<close>

definition untyped_report :: "(real, int) CaseReport" where
  "untyped_report = (example_report 7 ''dengue'' ''hospital'' 5)\<lparr>caseType := None\<rparr>"

definition untyped_db :: "(real, int) store" where
  "untyped_db =
    \<lparr>case_reports = [untyped_report],
     rainfall_daily_weighted_average = [],
     rh_daily_avg_region = [],
     tmax_daily_tmax_region = []\<rparr>"

section \<open>Lemmas on lists\<close>

lemma list_all_slice: "list_all P xs \<Longrightarrow> list_all P (take n (drop m xs))"
  by (auto simp: list_all_iff dest: in_set_takeD in_set_dropD)


lemma concat_pages:
  "concat (map (\<lambda>i. take k (drop (i * k) xs)) [0..<n]) = take (n * k) xs"
proof (induction n)
  case 0
  show ?case by simp
next
  case (Suc n)
  have "Suc n * k = n * k + k" by simp
  then have "take (Suc n * k) xs = take (n * k) xs @ take k (drop (n * k) xs)"
    by (simp only: take_add)
  with Suc show ?case by simp
qed

lemma find_distinct:
  "distinct (map f xs) \<Longrightarrow> r \<in> set xs \<Longrightarrow> find (\<lambda>x. f x = f r) xs = Some r"
  by (induction xs) auto



section \<open>Lemmas on the case report queries\<close>

lemma filtered_case_reports_filter:
  "filtered_case_reports db c e w = filter (\<lambda>r. selects c e w r) (case_reports db)"
  by (simp add: filtered_case_reports_def selects_def Let_def)

lemma get_case_reports_valid:
  assumes "1 \<le> page" "1 \<le> page_size" "page_size \<le> 100"
      and "(page - 1) * page_size \<le> max_offset"
  shows "get_case_reports db c e w page page_size =
    (let slice = take (nat page_size)
                   (drop (nat ((page - 1) * page_size)) (filtered_case_reports db c e w))
     in if slice = [] then (Inl (HTTPException 404 ''No case reports found''), db)
        else if list_all passes_CaseReportModel slice then (Inr slice, db)
        else (Inl ResponseValidationError, db))"
  using assms by (simp add: get_case_reports_def Let_def)

lemma page_of_length:
  assumes "1 \<le> page_size"
  shows "int (length (page_of db c e w page page_size)) \<le> page_size"
proof -
  let ?slice = "take (nat page_size)
      (drop (nat ((page - 1) * page_size)) (filtered_case_reports db c e w))"
  have "page_of db c e w page page_size = [] \<or> page_of db c e w page page_size = ?slice"
    by (simp add: page_of_def get_case_reports_def Let_def)
  moreover have "length ?slice \<le> nat page_size" by simp
  then have "int (length ?slice) \<le> page_size" using assms by linarith
  ultimately show ?thesis using assms by auto
qed

lemma page_of_valid:
  assumes "1 \<le> page" "1 \<le> page_size" "page_size \<le> 100"
      and "(page - 1) * page_size \<le> max_offset"
      and "list_all passes_CaseReportModel (filtered_case_reports db c e w)"
  shows "page_of db c e w page page_size =
    take (nat page_size) (drop (nat ((page - 1) * page_size)) (filtered_case_reports db c e w))"
  using assms by (simp add: page_of_def get_case_reports_valid Let_def list_all_slice)

lemma page_of_Suc:
  assumes "1 \<le> page_size" "page_size \<le> 100"
      and "int i * page_size \<le> max_offset"
      and "list_all passes_CaseReportModel (filtered_case_reports db c e w)"
  shows "page_of db c e w (int (Suc i)) page_size =
    take (nat page_size) (drop (i * nat page_size) (filtered_case_reports db c e w))"
proof -
  have off: "(int (Suc i) - 1) * page_size = int i * page_size" by simp
  have "nat ((int (Suc i) - 1) * page_size) = i * nat page_size"
    using assms(1) by (simp add: nat_mult_distrib)
  moreover have "1 \<le> int (Suc i)" by simp
  moreover have "(int (Suc i) - 1) * page_size \<le> max_offset"
    using assms(3) by (simp only: off)
  ultimately show ?thesis
    using assms(1,2,4) page_of_valid [of "int (Suc i)" page_size db c e w] by simp
qed

lemma example_filtered:
  "filtered_case_reports example_db None None None =
     [example_report 1 ''dengue'' ''hospital'' 5, example_report 2 ''dengue'' ''clinic'' 5,
      example_report 3 ''malaria'' ''hospital'' 6]"
  by (simp add: filtered_case_reports_def truthy_str_def truthy_int_def example_db_def)

section \<open>Lemmas on the weather query\<close>





text \<open>
  A humidity row that equals every supplied filter value is among the rows that the
  filters keep.
\<close>

lemma supplied_filters_selected:
  assumes "\<forall>x. fd = Some x \<longrightarrow> forecast_date h = x"
      and "\<forall>x. mc = Some x \<longrightarrow> municipality_code h = x"
      and "\<forall>x. mn = Some x \<longrightarrow> municipality_name h = Some x"
  shows "anchor_selected fd mc mn h"
  using assms by (auto simp: anchor_selected_def truthy_str_def split: option.splits)



lemma weather_loop_Inr:
  "weather_loop A rs acc = Inr ws \<Longrightarrow>
     \<exists>ws'. ws = acc @ ws' \<and> list_all2 (\<lambda>row w. make_WeatherData A row = Inr w) rs ws'"
proof (induction rs arbitrary: acc)
  case Nil
  then show ?case by simp
next
  case (Cons row rs)
  from Cons.prems obtain w where w: "make_WeatherData A row = Inr w"
    and rest: "weather_loop A rs (acc @ [w]) = Inr ws"
    by (auto split: sum.splits)
  from Cons.IH [OF rest] obtain ws' where "ws = (acc @ [w]) @ ws'"
    and "list_all2 (\<lambda>row w. make_WeatherData A row = Inr w) rs ws'"
    by blast
  with w show ?case by auto
qed

lemma weather_loop_labelled:
  "(\<And>row. row \<in> set rs \<Longrightarrow>
      day_name (anchor row) \<noteq> None \<and> municipality_name (anchor row) \<noteq> None)
    \<Longrightarrow> \<exists>ws. weather_loop A rs acc = Inr ws"
proof (induction rs arbitrary: acc)
  case Nil
  show ?case by simp
next
  case (Cons row rs)
  have "day_name (anchor row) \<noteq> None \<and> municipality_name (anchor row) \<noteq> None"
    using Cons.prems by simp
  then obtain w where "make_WeatherData A row = Inr w"
    by (auto simp: make_WeatherData_def)
  moreover have "\<exists>ws. weather_loop A rs (acc @ [w]) = Inr ws"
    using Cons by simp
  ultimately show ?case by simp
qed

lemma weather_loop_not_404: "weather_loop A rs acc \<noteq> Inl (HTTPException n d)"
proof (induction rs arbitrary: acc)
  case Nil
  show ?case by simp
next
  case (Cons row rs)
  then show ?case by (auto simp: make_WeatherData_def split: sum.splits option.splits)
qed

lemma example_results:
  "weather_results example_db None None None =
     [((example_metric ''2024-01-01'' (Some ''Mon'') (Some 80) ''M1'',
        Some (example_metric ''2024-01-01'' (Some ''Mon'') (Some 30) ''M1'')), None),
      ((example_metric ''2024-01-01'' (Some ''Mon'') (Some 70) ''M2'', None), None)]"
  by (simp add: weather_results_def truthy_str_def outer_join_def join_on_def
      example_db_def example_metric_def)


section \<open>The heat index\<close>

text \<open>
  Claim C3. For a fixed temperature and any two present humidity values, the heat index is
  the same: the humidity argument has no influence on the result.
\<close>

theorem heat_index_ignores_humidity:
  "compute_heat_index A T (Some H1) = compute_heat_index A T (Some H2)"
  by (simp add: compute_heat_index_def)

text \<open>
  Claim C8. The heat index is absent whenever either input is absent; absence is the value
  \<open>None\<close>, not an error.
\<close>

theorem heat_index_absent_input:
  "compute_heat_index A None H = None \<and> compute_heat_index A T None = None"
  by (simp add: compute_heat_index_def)

section \<open>The case report operations\<close>

text \<open>
  Claim C4, as amended. For a valid page and page size whose offset
  \<open>(page - 1) * page_size\<close> the store accepts, the list operation answers with the slice of
  the filtered rows that starts at that offset and has at most \<open>page_size\<close> rows, provided
  the slice is not empty (then it is NotFound) and every record in it has a \<^verbatim>\<open>caseType\<close>
  (otherwise the response model rejects it); a page never has more than \<open>page_size\<close> rows;
  and when every filtered record has a \<^verbatim>\<open>caseType\<close>, the pages \<open>1, \<dots>, n\<close> in order,
  once \<open>n\<close> pages cover the filtered rows, concatenate to the filtered rows, each record
  once. The store's order is the order of the list, the same in every request. (A record
  with a NULL \<^verbatim>\<open>caseType\<close> and an offset beyond the store's integers make the operation
  fail: see \<open>page_with_null_case_type\<close> below.)
\<close>

theorem case_reports_paging:
  assumes "1 \<le> page_size" and "page_size \<le> 100"
  shows "(1 \<le> page \<and> (page - 1) * page_size \<le> max_offset \<longrightarrow>
           fst (get_case_reports db c e w page page_size) =
             (let slice = take (nat page_size)
                            (drop (nat ((page - 1) * page_size)) (filtered_case_reports db c e w))
              in if slice = [] then Inl (HTTPException 404 ''No case reports found'')
                 else if list_all passes_CaseReportModel slice then Inr slice
                 else Inl ResponseValidationError) \<and>
           int (length (page_of db c e w page page_size)) \<le> page_size) \<and>
         (length (filtered_case_reports db c e w) \<le> n * nat page_size \<and>
          list_all passes_CaseReportModel (filtered_case_reports db c e w) \<and>
          int n * page_size \<le> max_offset \<longrightarrow>
           concat (map (\<lambda>p. page_of db c e w (int p) page_size) [1..<Suc n]) =
             filtered_case_reports db c e w)"
proof -
  let ?F = "filtered_case_reports db c e w"
  have first: "fst (get_case_reports db c e w page page_size) =
        (let slice = take (nat page_size) (drop (nat ((page - 1) * page_size)) ?F)
         in if slice = [] then Inl (HTTPException 404 ''No case reports found'')
            else if list_all passes_CaseReportModel slice then Inr slice
            else Inl ResponseValidationError)"
    if "1 \<le> page" and "(page - 1) * page_size \<le> max_offset"
    using assms that by (simp add: get_case_reports_valid Let_def)
  have second: "int (length (page_of db c e w page page_size)) \<le> page_size"
    using assms(1) by (rule page_of_length)
  have third: "concat (map (\<lambda>p. page_of db c e w (int p) page_size) [1..<Suc n]) = ?F"
    if len: "length ?F \<le> n * nat page_size"
      and typed: "list_all passes_CaseReportModel ?F"
      and off: "int n * page_size \<le> max_offset"
  proof -
    have page: "page_of db c e w (int (Suc i)) page_size =
        take (nat page_size) (drop (i * nat page_size) ?F)" if "i < n" for i
    proof -
      from that assms(1) have "int i * page_size \<le> int n * page_size"
        by (simp add: mult_right_mono)
      with off have bound: "int i * page_size \<le> max_offset" by simp
      show ?thesis by (rule page_of_Suc [OF assms(1) assms(2) bound typed])
    qed
    have "[1..<Suc n] = map Suc [0..<n]"
      by (simp add: map_Suc_upt)
    then have "concat (map (\<lambda>p. page_of db c e w (int p) page_size) [1..<Suc n]) =
          concat (map (\<lambda>i. page_of db c e w (int (Suc i)) page_size) [0..<n])"
      by (simp only: map_map comp_def)
    also have "map (\<lambda>i. page_of db c e w (int (Suc i)) page_size) [0..<n] =
          map (\<lambda>i. take (nat page_size) (drop (i * nat page_size) ?F)) [0..<n]"
    proof (rule map_cong)
      show "[0..<n] = [0..<n]" by simp
    next
      fix i
      assume "i \<in> set [0..<n]"
      then have "i < n" by simp
      then show "page_of db c e w (int (Suc i)) page_size =
          take (nat page_size) (drop (i * nat page_size) ?F)"
        by (rule page)
    qed
    also have "concat (map (\<lambda>i. take (nat page_size) (drop (i * nat page_size) ?F)) [0..<n]) =
          take (n * nat page_size) ?F"
      by (rule concat_pages)
    finally show ?thesis using len by simp
  qed
  from first second third show ?thesis by blast
qed

text \<open>
  The three reports of the example in pages of two: page 1 has the first two, page 2 the
  third, and the two pages together are the three reports.
\<close>

theorem case_reports_paging_witness:
  "fst (get_case_reports example_db None None None 1 2) =
     Inr [example_report 1 ''dengue'' ''hospital'' 5, example_report 2 ''dengue'' ''clinic'' 5] \<and>
   fst (get_case_reports example_db None None None 2 2) =
     Inr [example_report 3 ''malaria'' ''hospital'' 6] \<and>
   concat (map (\<lambda>p. page_of example_db None None None (int p) 2) [1..<Suc 2]) =
     [example_report 1 ''dengue'' ''hospital'' 5, example_report 2 ''dengue'' ''clinic'' 5,
      example_report 3 ''malaria'' ''hospital'' 6]"
proof -
  have ps: "(1::int) \<le> 2" "(2::int) \<le> 100" by simp_all
  have len: "length (filtered_case_reports example_db None None None) \<le> 2 * nat 2"
    by (simp add: example_filtered)
  have typed: "list_all passes_CaseReportModel (filtered_case_reports example_db None None None)"
    by (simp add: example_filtered passes_CaseReportModel_def example_report_def)
  have off: "int 2 * 2 \<le> max_offset" "(1 - 1) * 2 \<le> max_offset" "(2 - 1) * 2 \<le> max_offset"
    by (simp_all add: max_offset_def)
  from case_reports_paging [OF ps, of 1 example_db None None None 2] len typed off
  have "fst (get_case_reports example_db None None None 1 2) =
          Inr [example_report 1 ''dengue'' ''hospital'' 5,
               example_report 2 ''dengue'' ''clinic'' 5]"
    and "concat (map (\<lambda>p. page_of example_db None None None (int p) 2) [1..<Suc 2]) =
          filtered_case_reports example_db None None None"
    by (simp_all add: example_filtered passes_CaseReportModel_def example_report_def)
  moreover from case_reports_paging [OF ps, of 2 example_db None None None 2] off
  have "fst (get_case_reports example_db None None None 2 2) =
          Inr [example_report 3 ''malaria'' ''hospital'' 6]"
    by (simp add: example_filtered passes_CaseReportModel_def example_report_def)
  ultimately show ?thesis
    by (simp add: example_filtered)
qed

text \<open>
  Claim C4 as stated fails: the store whose one report has a NULL \<^verbatim>\<open>caseType\<close> has that
  report as its filtered rows, yet page 1 is rejected by the response model and contributes
  no record; and on the example store a page whose offset exceeds \<^verbatim>\<open>2**63 - 1\<close> ends with
  the store's error.
\<close>

theorem page_with_null_case_type:
  "filtered_case_reports untyped_db None None None = [untyped_report] \<and>
   fst (get_case_reports untyped_db None None None 1 10) = Inl ResponseValidationError \<and>
   page_of untyped_db None None None 1 10 = [] \<and>
   fst (get_case_reports example_db None None None 1000000000000000000 100) = Inl DataError"
  by (simp add: page_of_def get_case_reports_def filtered_case_reports_def truthy_str_def
      truthy_int_def Let_def max_offset_def passes_CaseReportModel_def untyped_db_def
      untyped_report_def)

text \<open>
  Claim C6, as amended. Every record that the list operation returns satisfies each filter
  that is supplied with a non-empty text or a non-zero week number, by exact equality, and
  all of these at once. (A filter supplied as the empty text or as week 0 is not applied:
  see \<open>week_zero_returns_other_weeks\<close> below.)
\<close>

theorem returned_reports_match_filters:
  assumes "fst (get_case_reports db caseType_q reportingEntityType_q weekNumber_q page page_size)
             = Inr rows"
      and "r \<in> set rows"
  shows "(\<forall>C. caseType_q = Some C \<and> C \<noteq> [] \<longrightarrow> caseType r = Some C) \<and>
         (\<forall>E. reportingEntityType_q = Some E \<and> E \<noteq> [] \<longrightarrow> reportingEntityType r = Some E) \<and>
         (\<forall>W. weekNumber_q = Some W \<and> W \<noteq> 0 \<longrightarrow> weekNumber r = Some W)"
proof -
  let ?F = "filtered_case_reports db caseType_q reportingEntityType_q weekNumber_q"
  from assms(1) have "rows = take (nat page_size) (drop (nat ((page - 1) * page_size)) ?F)"
    by (auto simp: get_case_reports_def Let_def split: if_splits)
  with assms(2) have "r \<in> set ?F"
    by (auto dest: in_set_takeD in_set_dropD)
  then have "selects caseType_q reportingEntityType_q weekNumber_q r"
    by (simp add: filtered_case_reports_filter)
  then show ?thesis
    by (auto simp: selects_def truthy_str_def truthy_int_def split: if_splits)
qed

text \<open>
  With the three filters dengue, hospital and week 5, the example store returns its first
  report alone, and that report has the three values.
\<close>

theorem returned_reports_match_filters_witness:
  "fst (get_case_reports example_db (Some ''dengue'') (Some ''hospital'') (Some 5) 1 10) =
     Inr [example_report 1 ''dengue'' ''hospital'' 5] \<and>
   caseType (example_report 1 ''dengue'' ''hospital'' 5) = Some ''dengue'' \<and>
   reportingEntityType (example_report 1 ''dengue'' ''hospital'' 5) = Some ''hospital'' \<and>
   weekNumber (example_report 1 ''dengue'' ''hospital'' 5) = Some 5"
proof -
  have res: "fst (get_case_reports example_db (Some ''dengue'') (Some ''hospital'') (Some 5) 1 10) =
      Inr [example_report 1 ''dengue'' ''hospital'' 5]"
    by (simp add: get_case_reports_def filtered_case_reports_def truthy_str_def truthy_int_def
        Let_def max_offset_def passes_CaseReportModel_def example_db_def example_report_def)
  have mem: "example_report 1 ''dengue'' ''hospital'' 5 \<in> set [example_report 1 ''dengue'' ''hospital'' 5]"
    by simp
  from returned_reports_match_filters [OF res mem] res show ?thesis
    by simp
qed

text \<open>
  Claim C6 as stated fails: with \<^verbatim>\<open>weekNumber=0\<close> supplied, the example store returns its
  three reports, and the first of them has week number 5, not 0.
\<close>

theorem week_zero_returns_other_weeks:
  "fst (get_case_reports example_db None None (Some 0) 1 10) =
     Inr [example_report 1 ''dengue'' ''hospital'' 5,
          example_report 2 ''dengue'' ''clinic'' 5,
          example_report 3 ''malaria'' ''hospital'' 6] \<and>
   weekNumber (example_report 1 ''dengue'' ''hospital'' 5) = Some 5"
  by (simp add: get_case_reports_def filtered_case_reports_def truthy_str_def truthy_int_def
      Let_def max_offset_def passes_CaseReportModel_def example_db_def example_report_def)

text \<open>
  Claim C7. The list operation called with \<^verbatim>\<open>weekNumber=0\<close> gives the result of the call
  without a week number, for every store and all other parameters.
\<close>

theorem week_zero_is_no_filter:
  "get_case_reports db c e (Some 0) page page_size = get_case_reports db c e None page page_size"
  by (simp add: get_case_reports_def filtered_case_reports_def truthy_int_def)

text \<open>
  Claim C9, as amended. With \<^verbatim>\<open>id\<close> the primary key of the table, get-by-id returns the
  record of the store whose id is the one asked for when that record has a \<^verbatim>\<open>caseType\<close>,
  and ends with NotFound when no record has that id. (A record with a NULL \<^verbatim>\<open>caseType\<close>
  is rejected by the response model: see \<open>get_case_report_null_case_type\<close> below.)
\<close>

theorem get_case_report_by_id:
  assumes "distinct (map id_col (case_reports db))"
  shows "(r \<in> set (case_reports db) \<and> caseType r \<noteq> None \<longrightarrow>
            get_case_report db (id_col r) = (Inr r, db)) \<and>
         (report_id \<notin> id_col ` set (case_reports db) \<longrightarrow>
            get_case_report db report_id =
              (Inl (HTTPException 404 ''Case report not found''), db))"
proof -
  have "get_case_report db (id_col r) = (Inr r, db)"
    if "r \<in> set (case_reports db)" and "caseType r \<noteq> None"
    using assms that
    by (simp add: get_case_report_def find_distinct passes_CaseReportModel_def)
  moreover have "report_id \<notin> id_col ` set (case_reports db) \<Longrightarrow>
      find (\<lambda>r. id_col r = report_id) (case_reports db) = None"
    by (auto simp: find_None_iff)
  then have "report_id \<notin> id_col ` set (case_reports db) \<Longrightarrow>
      get_case_report db report_id = (Inl (HTTPException 404 ''Case report not found''), db)"
    by (simp add: get_case_report_def)
  ultimately show ?thesis by blast
qed

text \<open>In the example store, id 2 gives the second report and id 99 gives NotFound.\<close>

theorem get_case_report_by_id_witness:
  "distinct (map id_col (case_reports example_db)) \<and>
   caseType (example_report 2 ''dengue'' ''clinic'' 5) = Some ''dengue'' \<and>
   get_case_report example_db 2 = (Inr (example_report 2 ''dengue'' ''clinic'' 5), example_db) \<and>
   get_case_report example_db 99 =
     (Inl (HTTPException 404 ''Case report not found''), example_db)"
proof -
  have pk: "distinct (map id_col (case_reports example_db))"
    by (simp add: example_db_def example_report_def)
  have mem: "example_report 2 ''dengue'' ''clinic'' 5 \<in> set (case_reports example_db)"
    by (simp add: example_db_def)
  have typed: "caseType (example_report 2 ''dengue'' ''clinic'' 5) = Some ''dengue''"
    by (simp add: example_report_def)
  have absent: "99 \<notin> id_col ` set (case_reports example_db)"
    by (simp add: example_db_def example_report_def)
  have id2: "id_col (example_report 2 ''dengue'' ''clinic'' 5) = 2"
    by (simp add: example_report_def)
  from get_case_report_by_id [OF pk, of "example_report 2 ''dengue'' ''clinic'' 5" 99]
    mem typed absent id2 pk
  show ?thesis by simp
qed

text \<open>
  Claim C9 as stated fails: the store has a record with id 7, its \<^verbatim>\<open>caseType\<close> is NULL, and
  get-by-id on 7 ends with the response model's rejection instead of the record.
\<close>

theorem get_case_report_null_case_type:
  "untyped_report \<in> set (case_reports untyped_db) \<and>
   id_col untyped_report = 7 \<and>
   get_case_report untyped_db 7 = (Inl ResponseValidationError, untyped_db)"
  by (simp add: get_case_report_def passes_CaseReportModel_def untyped_db_def
      untyped_report_def example_report_def)

text \<open>
  Claim C10. An empty text for any text filter behaves as no filter: for \<^verbatim>\<open>caseType\<close>
  and \<^verbatim>\<open>reportingEntityType\<close> of the list operation, and for \<^verbatim>\<open>forecast_date\<close>,
  \<^verbatim>\<open>municipality_code\<close> and \<^verbatim>\<open>municipality_name\<close> of the weather fetch, on every store.
\<close>

theorem empty_text_is_no_filter:
  "get_case_reports db (Some []) e w page page_size =
     get_case_reports db None e w page page_size \<and>
   get_case_reports db c (Some []) w page page_size =
     get_case_reports db c None w page page_size \<and>
   fetch_weather_data A db (Some []) mc mn = fetch_weather_data A db None mc mn \<and>
   fetch_weather_data A db fd (Some []) mn = fetch_weather_data A db fd None mn \<and>
   fetch_weather_data A db fd mc (Some []) = fetch_weather_data A db fd mc None"
  by (simp add: get_case_reports_def filtered_case_reports_def fetch_weather_data_def
      weather_results_def truthy_str_def)

section \<open>The weather fetch\<close>



section \<open>NotFound\<close>

text \<open>
  Claim C5, as amended. For a valid page and page size whose offset the store accepts, the
  list operation ends with NotFound (status 404) exactly when the page of the filtered rows
  is empty, and returns that page when it is not empty and every record in it has a
  \<^verbatim>\<open>caseType\<close>. The weather fetch ends with NotFound exactly when no joined row passes the
  filters; when some row passes and every such row has its \<^verbatim>\<open>day_name\<close> and
  \<^verbatim>\<open>municipality_name\<close>, it returns a non-empty list. Both leave the store as it was.
  (A row with a NULL label ends the fetch with the response model's validation error, a
  record with a NULL \<^verbatim>\<open>caseType\<close> is rejected by the list operation's response model, and
  an offset beyond the store's integers ends with the store's error: see
  \<open>weather_fetch_unlabelled_row\<close> below.)
\<close>

theorem not_found_iff_empty:
  assumes "1 \<le> page" and "1 \<le> page_size" and "page_size \<le> 100"
      and "(page - 1) * page_size \<le> max_offset"
  shows "(fst (get_case_reports db c e w page page_size) =
            Inl (HTTPException 404 ''No case reports found'') \<longleftrightarrow>
          take (nat page_size)
            (drop (nat ((page - 1) * page_size)) (filtered_case_reports db c e w)) = []) \<and>
         (take (nat page_size)
            (drop (nat ((page - 1) * page_size)) (filtered_case_reports db c e w)) \<noteq> [] \<and>
          list_all passes_CaseReportModel
            (take (nat page_size)
               (drop (nat ((page - 1) * page_size)) (filtered_case_reports db c e w))) \<longrightarrow>
          fst (get_case_reports db c e w page page_size) =
            Inr (take (nat page_size)
                   (drop (nat ((page - 1) * page_size)) (filtered_case_reports db c e w)))) \<and>
         snd (get_case_reports db c e w page page_size) = db \<and>
         (fst (fetch_weather_data A db fd mc mn) =
            Inl (HTTPException 404 ''No data found for the given filters'') \<longleftrightarrow>
          weather_results db fd mc mn = []) \<and>
         (weather_results db fd mc mn \<noteq> [] \<and>
          (\<forall>row \<in> set (weather_results db fd mc mn).
             day_name (anchor row) \<noteq> None \<and> municipality_name (anchor row) \<noteq> None) \<longrightarrow>
          (\<exists>rows. fst (fetch_weather_data A db fd mc mn) = Inr rows \<and> rows \<noteq> [])) \<and>
         snd (fetch_weather_data A db fd mc mn) = db"
proof -
  let ?slice = "take (nat page_size)
      (drop (nat ((page - 1) * page_size)) (filtered_case_reports db c e w))"
  let ?results = "weather_results db fd mc mn"
  have l1: "fst (get_case_reports db c e w page page_size) =
      Inl (HTTPException 404 ''No case reports found'') \<longleftrightarrow> ?slice = []"
    using assms by (simp add: get_case_reports_valid Let_def)
  have l2: "fst (get_case_reports db c e w page page_size) = Inr ?slice"
    if "?slice \<noteq> []" and "list_all passes_CaseReportModel ?slice"
    using assms that by (simp add: get_case_reports_valid Let_def)
  have l3: "snd (get_case_reports db c e w page page_size) = db"
    by (simp add: get_case_reports_def Let_def)
  have w1: "fst (fetch_weather_data A db fd mc mn) =
      Inl (HTTPException 404 ''No data found for the given filters'') \<longleftrightarrow> ?results = []"
    by (simp add: fetch_weather_data_def Let_def weather_loop_not_404)
  have w2: "\<exists>rows. fst (fetch_weather_data A db fd mc mn) = Inr rows \<and> rows \<noteq> []"
    if ne: "?results \<noteq> []"
      and lab: "\<forall>row \<in> set ?results.
        day_name (anchor row) \<noteq> None \<and> municipality_name (anchor row) \<noteq> None"
  proof -
    from lab obtain rows where rows: "weather_loop A ?results [] = Inr rows"
      using weather_loop_labelled [of ?results A "[]"] by blast
    from weather_loop_Inr [OF rows] have "length rows = length ?results"
      by (auto dest: list_all2_lengthD)
    with ne have "rows \<noteq> []" by auto
    with rows ne show ?thesis by (simp add: fetch_weather_data_def Let_def)
  qed
  have w3: "snd (fetch_weather_data A db fd mc mn) = db"
    by (simp add: fetch_weather_data_def Let_def)
  from l1 l2 l3 w1 w2 w3 show ?thesis by blast
qed

text \<open>
  On the example store, page 1 of size 10 of the unfiltered list is the three reports, the
  unfiltered weather fetch returns a non-empty list, and the store is unchanged by both.
\<close>

theorem not_found_iff_empty_witness:
  "fst (get_case_reports example_db None None None 1 10) =
     Inr [example_report 1 ''dengue'' ''hospital'' 5, example_report 2 ''dengue'' ''clinic'' 5,
          example_report 3 ''malaria'' ''hospital'' 6] \<and>
   snd (get_case_reports example_db None None None 1 10) = example_db \<and>
   weather_results example_db None None None \<noteq> [] \<and>
   (\<exists>rows. fst (fetch_weather_data real_arith example_db None None None) = Inr rows \<and>
      rows \<noteq> []) \<and>
   snd (fetch_weather_data real_arith example_db None None None) = example_db"
proof -
  have v: "(1::int) \<le> 1" "(1::int) \<le> 10" "(10::int) \<le> 100" "(1 - 1) * 10 \<le> max_offset"
    by (simp_all add: max_offset_def)
  have slice: "take (nat 10) (drop (nat ((1 - 1) * 10))
        (filtered_case_reports example_db None None None)) =
      [example_report 1 ''dengue'' ''hospital'' 5, example_report 2 ''dengue'' ''clinic'' 5,
       example_report 3 ''malaria'' ''hospital'' 6]"
    by (simp add: example_filtered)
  have typed: "list_all passes_CaseReportModel
      [example_report 1 ''dengue'' ''hospital'' 5, example_report 2 ''dengue'' ''clinic'' 5,
       example_report 3 ''malaria'' ''hospital'' 6]"
    by (simp add: passes_CaseReportModel_def example_report_def)
  have ne: "weather_results example_db None None None \<noteq> []"
    by (simp add: example_results)
  have lab: "\<forall>row \<in> set (weather_results example_db None None None).
      day_name (anchor row) \<noteq> None \<and> municipality_name (anchor row) \<noteq> None"
    by (simp add: example_results anchor_def example_metric_def)
  from not_found_iff_empty [OF v, of example_db None None None real_arith None None None]
    slice typed ne lab
  show ?thesis by (simp add: example_filtered)
qed

text \<open>
  Claim C5 as stated fails: the store with one humidity row whose \<^verbatim>\<open>day_name\<close> is NULL
  has a non-empty result set, and the fetch ends neither with NotFound nor with rows. The
  list operation likewise ends with neither on a non-empty page that holds a record with a
  NULL \<^verbatim>\<open>caseType\<close>, and on an offset above \<^verbatim>\<open>2**63 - 1\<close>.
\<close>

theorem weather_fetch_unlabelled_row:
  "weather_results unlabelled_db None None None \<noteq> [] \<and>
   fst (fetch_weather_data real_arith unlabelled_db None None None) = Inl ValidationError \<and>
   filtered_case_reports untyped_db None None None = [untyped_report] \<and>
   fst (get_case_reports untyped_db None None None 1 10) = Inl ResponseValidationError \<and>
   fst (get_case_reports example_db None None None 1000000000000000000 100) = Inl DataError"
  by (simp add: fetch_weather_data_def weather_results_def truthy_str_def outer_join_def
      make_WeatherData_def anchor_def unlabelled_db_def example_metric_def
      get_case_reports_def filtered_case_reports_def truthy_int_def Let_def max_offset_def
      passes_CaseReportModel_def untyped_db_def untyped_report_def)

end
